theory Spec2Isabelle
  imports Main "HOL-Library.AList"
begin

section \<open>Python values\<close>

text \<open>
  The attributes of the two classes carry no run-time type check (\<open>attr.ib(type=...)\<close>
  is an annotation only), and \<open>_from_data\<close> passes whatever the raw dict holds
  straight into them. The values are therefore modelled as the JSON-shaped Python
  values a raw report can hold. A dict is an association list in insertion order;
  Python guarantees that its keys are distinct (\<open>py_wf\<close> below). JSON floats are
  left out: no field of a valid report is a number.
\<close>

datatype pyval =
    PNone
  | PBool bool
  | PInt int
  | PStr string
  | PList "pyval list"
  | PDict "(string \<times> pyval) list"

text \<open>Truth value testing, as \<open>a or b\<close> and \<open>all([...])\<close> use it.\<close>

fun truthy :: "pyval \<Rightarrow> bool" where
  "truthy PNone = False"
| "truthy (PBool b) = b"
| "truthy (PInt i) = (i \<noteq> 0)"
| "truthy (PStr s) = (s \<noteq> [])"
| "truthy (PList xs) = (xs \<noteq> [])"
| "truthy (PDict d) = (d \<noteq> [])"

text \<open>\<open>a or b\<close>: the first operand when it is truthy, the second otherwise.\<close>

definition py_or :: "pyval \<Rightarrow> pyval \<Rightarrow> pyval" where
  "py_or a b = (if truthy a then a else b)"



section \<open>Errors and the log\<close>

datatype error =
    ValueError string
  | InvalidDataException string
  | TypeError
  | KeyError string
  | AttributeError



section \<open>The clock and the module-level constants\<close>

text \<open>
  \<open>datetime.datetime.utcnow()\<close> reads the clock; the reading is a parameter of
  whatever calls it. \<open>strftime("%Y-%m-%dT%H:%M:%SZ")\<close> prints the fields zero-padded
  (years of four digits, as \<open>utcnow\<close> gives them).
\<close>

record datetime =
  year :: nat
  month :: nat
  day :: nat
  hour :: nat
  minute :: nat
  second :: nat

definition digit :: "nat \<Rightarrow> char" where
  "digit n = ''0123456789'' ! (n mod 10)"

definition pad2 :: "nat \<Rightarrow> string" where
  "pad2 n = [digit (n div 10), digit n]"

definition pad4 :: "nat \<Rightarrow> string" where
  "pad4 n = [digit (n div 1000), digit (n div 100), digit (n div 10), digit n]"

definition iso_time_now :: "datetime \<Rightarrow> string" where
  "iso_time_now utcnow =
     pad4 (year utcnow) @ ''-'' @ pad2 (month utcnow) @ ''-'' @ pad2 (day utcnow) @ ''T'' @
     pad2 (hour utcnow) @ '':'' @ pad2 (minute utcnow) @ '':'' @ pad2 (second utcnow) @ ''Z''"

text \<open>
  What executing the module once (at import) leaves behind: the two environment reads
  of lines 15-16, and the two attribute defaults \<open>default=iso_time_now()\<close> of lines 35
  and 54. Each default is an expression in a class body, so it is evaluated when the
  class statement runs, with the clock reading of that moment.
\<close>

record module_state =
  USER :: "string option"
  HOSTNAME :: "string option"
  started_default :: pyval
  last_updated_default :: pyval

definition load_module :: "(string \<rightharpoonup> string) \<Rightarrow> datetime \<Rightarrow> datetime \<Rightarrow> module_state" where
  "load_module environ t_entry t_report =
     \<lparr> USER = environ ''USER'',
       HOSTNAME = environ ''HOSTNAME'',
       started_default = PStr (iso_time_now t_entry),
       last_updated_default = PStr (iso_time_now t_report) \<rparr>"

text \<open>\<open>os.environ.get\<close> gives \<open>None\<close> or a string; the test is on truthiness.\<close>

definition env_val :: "string option \<Rightarrow> pyval" where
  "env_val v = (case v of None \<Rightarrow> PNone | Some s \<Rightarrow> PStr s)"

definition py_str :: "string option \<Rightarrow> string" where
  "py_str v = (case v of None \<Rightarrow> ''None'' | Some s \<Rightarrow> s)"

definition OWNER :: "module_state \<Rightarrow> string" where
  "OWNER m =
     (if list_all truthy [env_val (USER m), env_val (HOSTNAME m)]
      then py_str (USER m) @ ''@'' @ py_str (HOSTNAME m)
      else ''pubtools.pulplib'')"

section \<open>MaintenanceEntry\<close>

record MaintenanceEntry =
  repo_id :: string
  message :: pyval
  owner :: pyval
  started :: pyval

text \<open>
  The generated constructor: \<open>repo_id\<close> is required, an omitted keyword takes the
  attribute's default.
\<close>

definition MaintenanceEntry_init ::
  "module_state \<Rightarrow> string \<Rightarrow> pyval option \<Rightarrow> pyval option \<Rightarrow> pyval option \<Rightarrow> MaintenanceEntry"
where
  "MaintenanceEntry_init m rid msg own st =
     \<lparr> repo_id = rid,
       message = (case msg of None \<Rightarrow> PNone | Some v \<Rightarrow> v),
       owner = (case own of None \<Rightarrow> PNone | Some v \<Rightarrow> v),
       started = (case st of None \<Rightarrow> started_default m | Some v \<Rightarrow> v) \<rparr>"

section \<open>MaintenanceReport\<close>

record MaintenanceReport =
  last_updated :: pyval
  last_updated_by :: pyval
  entries :: "MaintenanceEntry list"

definition check_duplicates :: "MaintenanceEntry list \<Rightarrow> error + unit" where
  "check_duplicates val =
     (let repo_ids = map repo_id val
      in if length repo_ids \<noteq> card (set repo_ids)
         then Inl (ValueError ''Duplicate entries'')
         else Inr ())"

text \<open>The generated constructor runs the validator of \<open>entries\<close>.\<close>

definition MaintenanceReport_init ::
  "pyval \<Rightarrow> pyval \<Rightarrow> MaintenanceEntry list \<Rightarrow> error + MaintenanceReport"
where
  "MaintenanceReport_init lu lub es =
     (case check_duplicates es of
        Inl e \<Rightarrow> Inl e
      | Inr _ \<Rightarrow> Inr \<lparr> last_updated = lu, last_updated_by = lub, entries = es \<rparr>)"

text \<open>\<open>MaintenanceReport()\<close>, every attribute at its default.\<close>

definition MaintenanceReport_default :: "module_state \<Rightarrow> error + MaintenanceReport" where
  "MaintenanceReport_default m = MaintenanceReport_init (last_updated_default m) PNone []"

text \<open>The invariant the constructor enforces.\<close>

definition unique_ids :: "MaintenanceReport \<Rightarrow> bool" where
  "unique_ids r = distinct (map repo_id (entries r))"

section \<open>The schema\<close>








section \<open>Import and export\<close>









section \<open>add and remove\<close>

type_synonym kwargs = "string \<rightharpoonup> pyval"

text \<open>\<open>kwargs.get(k)\<close>: \<open>None\<close> for a keyword that was not passed.\<close>

definition kwargs_get :: "kwargs \<Rightarrow> string \<Rightarrow> pyval" where
  "kwargs_get kw k = (case kw k of None \<Rightarrow> PNone | Some v \<Rightarrow> v)"

definition resolve_message :: "kwargs \<Rightarrow> pyval" where
  "resolve_message kw = py_or (kwargs_get kw ''message'') (PStr ''Maintenance mode is enabled'')"

definition resolve_owner :: "module_state \<Rightarrow> kwargs \<Rightarrow> pyval" where
  "resolve_owner m kw = py_or (kwargs_get kw ''owner'') (PStr (OWNER m))"

text \<open>The loop of lines 153-155.\<close>

definition to_add :: "module_state \<Rightarrow> pyval \<Rightarrow> pyval \<Rightarrow> string list \<Rightarrow> MaintenanceEntry list" where
  "to_add m msg own repo_ids =
     map (\<lambda>repo. MaintenanceEntry_init m repo (Some msg) (Some own) None) repo_ids"

text \<open>
  The loop of lines 161-166 over \<open>reversed(entries)\<close>: \<open>filtered_entries\<close> and
  \<open>entry_ids\<close> are its two accumulators.
\<close>

fun filter_loop :: "MaintenanceEntry list \<Rightarrow> MaintenanceEntry list \<Rightarrow> string set \<Rightarrow> MaintenanceEntry list" where
  "filter_loop [] filtered_entries entry_ids = filtered_entries"
| "filter_loop (entry # rest) filtered_entries entry_ids =
     (if repo_id entry \<notin> entry_ids
      then filter_loop rest (filtered_entries @ [entry]) (insert (repo_id entry) entry_ids)
      else filter_loop rest filtered_entries entry_ids)"

text \<open>\<open>now\<close> is the clock reading of the call \<open>iso_time_now()\<close> on line 172.\<close>

definition add ::
  "module_state \<Rightarrow> datetime \<Rightarrow> MaintenanceReport \<Rightarrow> string list \<Rightarrow> kwargs \<Rightarrow> error + MaintenanceReport"
where
  "add m now self repo_ids kw =
     (let msg = resolve_message kw;
          own = resolve_owner m kw;
          es = entries self @ to_add m msg own repo_ids;
          filtered_entries = filter_loop (rev es) [] {}
      in MaintenanceReport_init (PStr (iso_time_now now)) own filtered_entries)"

text \<open>The loop of lines 195-198.\<close>

fun remove_loop :: "MaintenanceEntry list \<Rightarrow> string set \<Rightarrow> MaintenanceEntry list \<Rightarrow> MaintenanceEntry list" where
  "remove_loop [] repo_ids new_entries = new_entries"
| "remove_loop (entry # rest) repo_ids new_entries =
     (if repo_id entry \<notin> repo_ids
      then remove_loop rest repo_ids (new_entries @ [entry])
      else remove_loop rest repo_ids new_entries)"

definition remove ::
  "module_state \<Rightarrow> MaintenanceReport \<Rightarrow> string list \<Rightarrow> kwargs \<Rightarrow> error + MaintenanceReport"
where
  "remove m self repo_ids kw =
     (let own = resolve_owner m kw;
          new_entries = remove_loop (entries self) (set repo_ids) []
      in MaintenanceReport_init (last_updated self) own new_entries)"

section \<open>Objects\<close>

text \<open>
  Reports are objects: a method receives a reference and \<open>attr.evolve\<close> returns a
  reference to a newly constructed instance. The heap holds the instances made so
  far, a reference is an index into it. Both classes are frozen, and neither method
  assigns to an attribute of \<open>self\<close>.
\<close>

type_synonym heap = "MaintenanceReport list"

definition alloc :: "heap \<Rightarrow> MaintenanceReport \<Rightarrow> nat \<times> heap" where
  "alloc h r = (length h, h @ [r])"



section \<open>The deduplication policy, as the spec words it\<close>

text \<open>
  Of several entries with one \<open>repo_id\<close> only the most recently added one, the
  last in the combined list, survives.
\<close>

fun keep_last :: "MaintenanceEntry list \<Rightarrow> MaintenanceEntry list" where
  "keep_last [] = []"
| "keep_last (e # es) =
     (if repo_id e \<in> repo_id ` set es then keep_last es else e # keep_last es)"

section \<open>What from_data builds, as the spec words it\<close>



section \<open>Sample data\<close>

definition import_time :: datetime where
  "import_time = \<lparr> year = 2020, month = 1, day = 2, hour = 3, minute = 4, second = 5 \<rparr>"

definition call_time :: datetime where
  "call_time = \<lparr> year = 2021, month = 11, day = 12, hour = 13, minute = 14, second = 15 \<rparr>"

definition sample_module :: module_state where
  "sample_module =
     load_module [''USER'' \<mapsto> ''alice'', ''HOSTNAME'' \<mapsto> ''box''] import_time import_time"

definition sample_entry :: "string \<Rightarrow> MaintenanceEntry" where
  "sample_entry rid =
     \<lparr> repo_id = rid, message = PStr ''kernel update'', owner = PStr ''carol'',
       started = PStr ''2019-06-07T08:09:10Z'' \<rparr>"

definition sample_report :: MaintenanceReport where
  "sample_report =
     \<lparr> last_updated = PStr ''2019-06-07T08:09:10Z'', last_updated_by = PStr ''carol'',
       entries = [sample_entry ''repoA''] \<rparr>"



section \<open>The constructor and the loops\<close>

lemma check_duplicates_distinct:
  "distinct (map repo_id es) \<Longrightarrow> check_duplicates es = Inr ()"
  using distinct_card [of "map repo_id es"]
  by (simp add: check_duplicates_def Let_def)

lemma check_duplicates_dup:
  "\<not> distinct (map repo_id es) \<Longrightarrow> check_duplicates es = Inl (ValueError ''Duplicate entries'')"
  using card_distinct [of "map repo_id es"]
  by (auto simp: check_duplicates_def Let_def)

lemma init_distinct:
  "distinct (map repo_id es) \<Longrightarrow>
   MaintenanceReport_init lu lub es = Inr \<lparr> last_updated = lu, last_updated_by = lub, entries = es \<rparr>"
  by (simp add: MaintenanceReport_init_def check_duplicates_distinct)

lemma init_dup:
  "\<not> distinct (map repo_id es) \<Longrightarrow>
   MaintenanceReport_init lu lub es = Inl (ValueError ''Duplicate entries'')"
  by (simp add: MaintenanceReport_init_def check_duplicates_dup)

lemma filter_loop_acc:
  "filter_loop xs acc ids = acc @ filter_loop xs [] ids"
proof (induction xs arbitrary: acc ids)
  case Nil
  show ?case by simp
next
  case (Cons x xs)
  have a: "filter_loop xs (acc @ [x]) (insert (repo_id x) ids) =
        acc @ [x] @ filter_loop xs [] (insert (repo_id x) ids)"
    using Cons.IH [of "acc @ [x]"] by simp
  have b: "filter_loop xs [x] (insert (repo_id x) ids) =
        [x] @ filter_loop xs [] (insert (repo_id x) ids)"
    using Cons.IH [of "[x]"] by simp
  show ?case using a b Cons.IH [of acc ids] by simp
qed

lemma filter_loop_snoc:
  "filter_loop (xs @ [e]) [] ids =
     filter_loop xs [] ids @ (if repo_id e \<in> ids \<union> repo_id ` set xs then [] else [e])"
proof (induction xs arbitrary: ids)
  case Nil
  show ?case by simp
next
  case (Cons x xs)
  show ?case
    using Cons.IH [of ids] Cons.IH [of "insert (repo_id x) ids"]
      filter_loop_acc [of "xs @ [e]" "[x]"] filter_loop_acc [of xs "[x]"]
    by auto
qed

lemma filter_loop_rev: "filter_loop (rev es) [] {} = rev (keep_last es)"
  by (induction es) (simp_all add: filter_loop_snoc)

lemma keep_last_ids: "repo_id ` set (keep_last es) = repo_id ` set es"
  by (induction es) auto

lemma keep_last_distinct: "distinct (map repo_id (keep_last es))"
  by (induction es) (auto simp: keep_last_ids)

lemma keep_last_id: "distinct (map repo_id es) \<Longrightarrow> keep_last es = es"
  by (induction es) auto

lemma keep_last_append:
  "keep_last (old @ new) =
     filter (\<lambda>e. repo_id e \<notin> repo_id ` set new) (keep_last old) @ keep_last new"
  by (induction old) (auto simp: image_Un)

lemma remove_loop_filter:
  "remove_loop es ids acc = acc @ filter (\<lambda>e. repo_id e \<notin> ids) es"
  by (induction es arbitrary: acc) auto

lemma add_eq:
  "add m now r ids kw =
     Inr \<lparr> last_updated = PStr (iso_time_now now),
           last_updated_by = resolve_owner m kw,
           entries = rev (keep_last (entries r @ to_add m (resolve_message kw) (resolve_owner m kw) ids)) \<rparr>"
  by (simp add: add_def Let_def filter_loop_rev init_distinct keep_last_distinct distinct_rev rev_map [symmetric])

lemma remove_eq:
  "unique_ids r \<Longrightarrow>
   remove m r ids kw =
     Inr \<lparr> last_updated = last_updated r,
           last_updated_by = resolve_owner m kw,
           entries = filter (\<lambda>e. repo_id e \<notin> set ids) (entries r) \<rparr>"
  by (simp add: remove_def Let_def remove_loop_filter init_distinct unique_ids_def distinct_map_filter)

lemma alloc_eq: "alloc h r = (length h, h @ [r])" by (simp add: alloc_def)



section \<open>Entries made by add\<close>

lemma filter_keep_last:
  "filter (\<lambda>e. repo_id e = rid) (keep_last es) =
     (if rid \<in> repo_id ` set es then [last (filter (\<lambda>e. repo_id e = rid) es)] else [])"
proof (induction es)
  case Nil
  show ?case by simp
next
  case (Cons e es)
  have ne: "rid \<in> repo_id ` set es \<Longrightarrow> filter (\<lambda>e. repo_id e = rid) es \<noteq> []"
    by (auto simp: filter_empty_conv)
  have em: "rid \<notin> repo_id ` set es \<Longrightarrow> filter (\<lambda>e. repo_id e = rid) es = []"
    by (auto simp: filter_empty_conv)
  show ?case using Cons.IH ne em by auto
qed

lemma to_add_id_set: "repo_id ` set (to_add m msg own ids) = set ids"
  by (simp add: to_add_def MaintenanceEntry_init_def image_image)

lemma to_add_Cons:
  "to_add m msg own (x # xs) =
     MaintenanceEntry_init m x (Some msg) (Some own) None # to_add m msg own xs"
  by (simp add: to_add_def)

lemma to_add_Nil: "to_add m msg own [] = []"
  by (simp add: to_add_def)

lemma init_repo_id: "repo_id (MaintenanceEntry_init m x msg own st) = x"
  by (simp add: MaintenanceEntry_init_def)

lemma filter_to_add:
  "filter (\<lambda>e. repo_id e = rid) (to_add m msg own ids) =
     replicate (length (filter (\<lambda>x. x = rid) ids)) (MaintenanceEntry_init m rid (Some msg) (Some own) None)"
  by (induction ids) (auto simp: to_add_Cons to_add_Nil init_repo_id)


lemma last_filter_added:
  assumes "rid \<in> set ids"
  shows "last (filter (\<lambda>e. repo_id e = rid) (old @ to_add m msg own ids)) =
           MaintenanceEntry_init m rid (Some msg) (Some own) None"
proof -
  have "filter (\<lambda>x. x = rid) ids \<noteq> []"
    using assms by (auto simp: filter_empty_conv)
  then have pos: "0 < length (filter (\<lambda>x. x = rid) ids)" by simp
  have ne: "filter (\<lambda>e. repo_id e = rid) (to_add m msg own ids) \<noteq> []"
    using pos by (simp add: filter_to_add)
  have l: "last (filter (\<lambda>e. repo_id e = rid) (to_add m msg own ids)) =
          MaintenanceEntry_init m rid (Some msg) (Some own) None"
    using pos by (simp add: filter_to_add)
  have "last (filter (\<lambda>e. repo_id e = rid) old @ filter (\<lambda>e. repo_id e = rid) (to_add m msg own ids))
         = last (filter (\<lambda>e. repo_id e = rid) (to_add m msg own ids))"
    using ne by (rule last_appendR)
  then show ?thesis using l by simp
qed

lemma filter_added:
  assumes "rid \<in> set ids"
  shows "filter (\<lambda>e. repo_id e = rid) (rev (keep_last (old @ to_add m msg own ids))) =
           [MaintenanceEntry_init m rid (Some msg) (Some own) None]"
proof -
  have mem: "rid \<in> repo_id ` set (old @ to_add m msg own ids)"
    using assms by (simp add: image_Un to_add_id_set)
  have "filter (\<lambda>e. repo_id e = rid) (keep_last (old @ to_add m msg own ids)) =
          [last (filter (\<lambda>e. repo_id e = rid) (old @ to_add m msg own ids))]"
    using mem by (simp only: filter_keep_last if_True)
  then have "filter (\<lambda>e. repo_id e = rid) (keep_last (old @ to_add m msg own ids)) =
          [MaintenanceEntry_init m rid (Some msg) (Some own) None]"
    by (simp only: last_filter_added [OF assms])
  then have "rev (filter (\<lambda>e. repo_id e = rid) (keep_last (old @ to_add m msg own ids))) =
          [MaintenanceEntry_init m rid (Some msg) (Some own) None]"
    by simp
  then show ?thesis by (simp only: rev_filter)
qed

lemma keep_last_to_add:
  "keep_last (to_add m msg own ids) = to_add m msg own (remdups ids)"
  by (induction ids) (simp_all add: to_add_Cons to_add_Nil init_repo_id to_add_id_set)

lemma added_entry_fields:
  assumes "e \<in> set (rev (keep_last (old @ to_add m msg own ids)))" and "repo_id e \<in> set ids"
  shows "e = MaintenanceEntry_init m (repo_id e) (Some msg) (Some own) None"
proof -
  have "e \<in> set (filter (\<lambda>x. repo_id x = repo_id e) (rev (keep_last (old @ to_add m msg own ids))))"
    using assms(1) by simp
  then show ?thesis
    by (simp only: filter_added [OF assms(2)]) simp
qed

lemma added_entries:
  "add m now r ids kw = Inr r' \<Longrightarrow> e \<in> set (entries r') \<Longrightarrow> repo_id e \<in> set ids \<Longrightarrow>
   e = MaintenanceEntry_init m (repo_id e) (Some (resolve_message kw)) (Some (resolve_owner m kw)) None"
  using added_entry_fields [of e "entries r" m "resolve_message kw" "resolve_owner m kw" ids]
  by (auto simp: add_eq simp del: set_rev)

section \<open>Default resolution\<close>

lemma OWNER_cases:
  "OWNER m =
     (case USER m of
        None \<Rightarrow> ''pubtools.pulplib''
      | Some u \<Rightarrow>
          (case HOSTNAME m of
             None \<Rightarrow> ''pubtools.pulplib''
           | Some h \<Rightarrow> if u \<noteq> [] \<and> h \<noteq> [] then u @ ''@'' @ h else ''pubtools.pulplib''))"
  by (simp add: OWNER_def env_val_def py_str_def split: option.splits)

lemma OWNER_nonempty: "OWNER m \<noteq> []"
  by (simp add: OWNER_cases split: option.splits)

lemma resolve_owner_truthy: "truthy (resolve_owner m kw)"
  by (simp add: resolve_owner_def py_or_def OWNER_nonempty)

lemma resolve_message_truthy: "truthy (resolve_message kw)"
  by (simp add: resolve_message_def py_or_def)

lemma added_entry_message_owner:
  assumes "add m now r ids kw = Inr r'" and "e \<in> set (entries r')" and "repo_id e \<in> set ids"
  shows "message e = resolve_message kw \<and> owner e = resolve_owner m kw"
proof -
  let ?n = "MaintenanceEntry_init m (repo_id e) (Some (resolve_message kw)) (Some (resolve_owner m kw)) None"
  have "e = ?n" using added_entries [OF assms] .
  then have "message e = message ?n \<and> owner e = owner ?n" by simp
  then show ?thesis by (simp add: MaintenanceEntry_init_def)
qed

section \<open>Evaluation on the sample data\<close>

lemma iso_import_time: "iso_time_now import_time = ''2020-01-02T03:04:05Z''"
  by (simp add: iso_time_now_def import_time_def pad2_def pad4_def digit_def)

lemma iso_call_time: "iso_time_now call_time = ''2021-11-12T13:14:15Z''"
  by (simp add: iso_time_now_def call_time_def pad2_def pad4_def digit_def)

lemma sample_module_fields:
  "started_default sample_module = PStr ''2020-01-02T03:04:05Z''"
  "OWNER sample_module = ''alice@box''"
  by (simp_all add: sample_module_def load_module_def iso_import_time OWNER_cases)

lemma resolve_empty:
  "resolve_message Map.empty = PStr ''Maintenance mode is enabled''"
  "resolve_owner m Map.empty = PStr (OWNER m)"
  by (simp_all add: resolve_message_def resolve_owner_def kwargs_get_def py_or_def)

lemma sample_unique: "unique_ids sample_report"
  by (simp add: unique_ids_def sample_report_def)

lemma to_add_one:
  "to_add m msg own [rid] = [\<lparr> repo_id = rid, message = msg, owner = own, started = started_default m \<rparr>]"
  by (simp add: to_add_def MaintenanceEntry_init_def)

lemma add_sample_B:
  "add sample_module call_time sample_report [''repoB''] Map.empty =
     Inr \<lparr> last_updated = PStr ''2021-11-12T13:14:15Z'',
           last_updated_by = PStr ''alice@box'',
           entries = [\<lparr> repo_id = ''repoB'', message = PStr ''Maintenance mode is enabled'',
                        owner = PStr ''alice@box'', started = PStr ''2020-01-02T03:04:05Z'' \<rparr>,
                      sample_entry ''repoA''] \<rparr>"
  by (simp add: add_eq resolve_empty sample_module_fields iso_call_time to_add_one
        sample_report_def sample_entry_def)

section \<open>What add and remove change\<close>



section \<open>The uniqueness invariant\<close>

text \<open>
  C4. Constructing a report from entries of which two share a \<open>repo_id\<close> raises
  \<open>ValueError("Duplicate entries")\<close>. \<open>add\<close> always returns a report, and its
  entries have pairwise distinct ids; \<open>remove\<close>, on a report with distinct ids,
  returns a report with distinct ids. So the validator never fires on these paths.
\<close>

theorem uniqueness_invariant:
  "(\<not> distinct (map repo_id es) \<longrightarrow>
      MaintenanceReport_init lu lub es = Inl (ValueError ''Duplicate entries''))
   \<and> (\<exists>r'. add m now r repo_ids kw = Inr r' \<and> unique_ids r')
   \<and> (unique_ids r \<longrightarrow> (\<exists>r'. remove m r repo_ids kw = Inr r' \<and> unique_ids r'))"
proof -
  have a: "\<not> distinct (map repo_id es) \<longrightarrow>
      MaintenanceReport_init lu lub es = Inl (ValueError ''Duplicate entries'')"
    by (simp add: init_dup)
  have b: "\<exists>r'. add m now r repo_ids kw = Inr r' \<and> unique_ids r'"
    by (simp add: add_eq unique_ids_def keep_last_distinct distinct_rev rev_map [symmetric])
  have c: "unique_ids r \<longrightarrow> (\<exists>r'. remove m r repo_ids kw = Inr r' \<and> unique_ids r')"
    by (simp add: remove_eq unique_ids_def distinct_map_filter)
  from a b c show ?thesis by blast
qed

theorem uniqueness_invariant_witness:
  "MaintenanceReport_init (PStr ''2019-06-07T08:09:10Z'') PNone
       [sample_entry ''repoA'', sample_entry ''repoB'', sample_entry ''repoA''] =
     Inl (ValueError ''Duplicate entries'') \<and>
   add sample_module call_time sample_report [''repoA'', ''repoA''] Map.empty =
     Inr \<lparr> last_updated = PStr ''2021-11-12T13:14:15Z'',
           last_updated_by = PStr ''alice@box'',
           entries = [\<lparr> repo_id = ''repoA'', message = PStr ''Maintenance mode is enabled'',
                        owner = PStr ''alice@box'', started = PStr ''2020-01-02T03:04:05Z'' \<rparr>] \<rparr> \<and>
   unique_ids sample_report \<and>
   remove sample_module sample_report [''repoA''] Map.empty =
     Inr \<lparr> last_updated = PStr ''2019-06-07T08:09:10Z'',
           last_updated_by = PStr ''alice@box'',
           entries = [] \<rparr>"
proof -
  have a: "add sample_module call_time sample_report [''repoA'', ''repoA''] Map.empty =
     Inr \<lparr> last_updated = PStr ''2021-11-12T13:14:15Z'',
           last_updated_by = PStr ''alice@box'',
           entries = [\<lparr> repo_id = ''repoA'', message = PStr ''Maintenance mode is enabled'',
                        owner = PStr ''alice@box'', started = PStr ''2020-01-02T03:04:05Z'' \<rparr>] \<rparr>"
    by (simp add: add_eq resolve_empty sample_module_fields iso_call_time to_add_Cons to_add_Nil
          MaintenanceEntry_init_def sample_report_def sample_entry_def)
  have b: "remove sample_module sample_report [''repoA''] Map.empty =
     Inr \<lparr> last_updated = PStr ''2019-06-07T08:09:10Z'',
           last_updated_by = PStr ''alice@box'',
           entries = [] \<rparr>"
    by (simp only: remove_eq [OF sample_unique] resolve_empty sample_module_fields)
      (simp add: sample_report_def sample_entry_def)
  show ?thesis
    using uniqueness_invariant [where es = "[sample_entry ''repoA'', sample_entry ''repoB'', sample_entry ''repoA'']"
        and lu = "PStr ''2019-06-07T08:09:10Z''" and lub = PNone and m = sample_module
        and now = call_time and r = sample_report and repo_ids = "[''repoA'', ''repoA'']"
        and kw = Map.empty]
    by (simp add: a b sample_unique sample_entry_def)
qed

section \<open>remove\<close>

text \<open>
  C5. On a report with distinct ids, \<open>remove\<close> returns the report whose entries
  are those of \<open>self\<close> with a \<open>repo_id\<close> outside \<open>repo_ids\<close>, in their order (a
  \<open>filter\<close>), whose \<open>last_updated\<close> is that of \<open>self\<close> and whose
  \<open>last_updated_by\<close> is the resolved owner. When no id of \<open>repo_ids\<close> occurs in
  \<open>self\<close>, only \<open>last_updated_by\<close> differs from \<open>self\<close>. Only the set of
  \<open>repo_ids\<close> matters: two lists with the same elements give the same result.
\<close>

theorem remove_keeps_other_entries:
  assumes "unique_ids r"
  shows "remove m r repo_ids kw =
           Inr \<lparr> last_updated = last_updated r,
                 last_updated_by = resolve_owner m kw,
                 entries = filter (\<lambda>e. repo_id e \<notin> set repo_ids) (entries r) \<rparr>
       \<and> (set repo_ids \<inter> repo_id ` set (entries r) = {} \<longrightarrow>
            remove m r repo_ids kw = Inr (r\<lparr> last_updated_by := resolve_owner m kw \<rparr>))
       \<and> (set ids' = set repo_ids \<longrightarrow> remove m r ids' kw = remove m r repo_ids kw)"
proof -
  have "set repo_ids \<inter> repo_id ` set (entries r) = {} \<Longrightarrow>
        filter (\<lambda>e. repo_id e \<notin> set repo_ids) (entries r) = entries r"
    by (rule filter_True) auto
  then show ?thesis
    by (simp add: remove_eq [OF assms])
qed

theorem remove_keeps_other_entries_witness:
  "unique_ids (sample_report \<lparr> entries :=
       [sample_entry ''repoA'', sample_entry ''repoB'', sample_entry ''repoC''] \<rparr>) \<and>
   remove sample_module
       (sample_report \<lparr> entries :=
          [sample_entry ''repoA'', sample_entry ''repoB'', sample_entry ''repoC''] \<rparr>)
       [''repoB'', ''repoX'', ''repoB''] [''owner'' \<mapsto> PStr ''bob''] =
     Inr \<lparr> last_updated = PStr ''2019-06-07T08:09:10Z'',
           last_updated_by = PStr ''bob'',
           entries = [sample_entry ''repoA'', sample_entry ''repoC''] \<rparr>"
proof -
  let ?r = "sample_report \<lparr> entries :=
       [sample_entry ''repoA'', sample_entry ''repoB'', sample_entry ''repoC''] \<rparr>"
  have u: "unique_ids ?r"
    by (simp add: unique_ids_def sample_entry_def)
  have o: "resolve_owner sample_module [''owner'' \<mapsto> PStr ''bob''] = PStr ''bob''"
    by (simp add: resolve_owner_def kwargs_get_def py_or_def)
  show ?thesis
    using u remove_keeps_other_entries [OF u, where m = sample_module
        and repo_ids = "[''repoB'', ''repoX'', ''repoB'']" and kw = "[''owner'' \<mapsto> PStr ''bob'']"
        and ids' = "[''repoX'', ''repoB'']"]
    by (simp add: o sample_report_def sample_entry_def)
qed

section \<open>add on an id that is already there\<close>

text \<open>
  C6. The entries of the report \<open>add\<close> returns are the combined list (the entries
  of \<open>self\<close>, then one new entry per element of \<open>repo_ids\<close>) with only the last
  occurrence of each \<open>repo_id\<close> kept, in reverse. For every id of \<open>repo_ids\<close>
  the result holds exactly one entry with that id, and it is the entry this call
  made, with the call's resolved message and owner. In particular
  \<open>r.add(["repoA"]).add(["repoA"], owner="bob")\<close> holds exactly one entry for
  \<open>repoA\<close>, and its owner is \<open>bob\<close>.
\<close>

theorem add_replaces_existing:
  "(\<exists>r'. add m now r repo_ids kw = Inr r' \<and>
      entries r' = rev (keep_last (entries r @
                     to_add m (resolve_message kw) (resolve_owner m kw) repo_ids)) \<and>
      (\<forall>rid \<in> set repo_ids.
         filter (\<lambda>e. repo_id e = rid) (entries r') =
           [MaintenanceEntry_init m rid (Some (resolve_message kw)) (Some (resolve_owner m kw)) None]))
   \<and> (\<exists>r1 r2. add m t1 r [''repoA''] Map.empty = Inr r1 \<and>
         add m t2 r1 [''repoA''] [''owner'' \<mapsto> PStr ''bob''] = Inr r2 \<and>
         filter (\<lambda>e. repo_id e = ''repoA'') (entries r2) =
           [\<lparr> repo_id = ''repoA'', message = PStr ''Maintenance mode is enabled'',
              owner = PStr ''bob'', started = started_default m \<rparr>])"
proof -
  have a: "\<exists>r'. add m now r repo_ids kw = Inr r' \<and>
      entries r' = rev (keep_last (entries r @
                     to_add m (resolve_message kw) (resolve_owner m kw) repo_ids)) \<and>
      (\<forall>rid \<in> set repo_ids.
         filter (\<lambda>e. repo_id e = rid) (entries r') =
           [MaintenanceEntry_init m rid (Some (resolve_message kw)) (Some (resolve_owner m kw)) None])"
    by (simp add: add_eq filter_added del: keep_last.simps)
  obtain r1 where r1: "add m t1 r [''repoA''] Map.empty = Inr r1"
    by (simp add: add_eq)
  let ?kw = "[''owner'' \<mapsto> PStr ''bob'']"
  have o: "resolve_owner m ?kw = PStr ''bob''"
    by (simp add: resolve_owner_def kwargs_get_def py_or_def)
  have g: "resolve_message ?kw = PStr ''Maintenance mode is enabled''"
    by (simp add: resolve_message_def kwargs_get_def py_or_def)
  obtain r2 where r2: "add m t2 r1 [''repoA''] ?kw = Inr r2"
    and e2: "entries r2 = rev (keep_last (entries r1 @
               to_add m (resolve_message ?kw) (resolve_owner m ?kw) [''repoA'']))"
    by (simp add: add_eq)
  have "filter (\<lambda>e. repo_id e = ''repoA'') (entries r2) =
          [MaintenanceEntry_init m ''repoA'' (Some (resolve_message ?kw)) (Some (resolve_owner m ?kw)) None]"
    unfolding e2 by (rule filter_added) simp
  then have "filter (\<lambda>e. repo_id e = ''repoA'') (entries r2) =
           [\<lparr> repo_id = ''repoA'', message = PStr ''Maintenance mode is enabled'',
              owner = PStr ''bob'', started = started_default m \<rparr>]"
    by (simp only: o g) (simp add: MaintenanceEntry_init_def)
  with r1 r2 have b: "\<exists>r1 r2. add m t1 r [''repoA''] Map.empty = Inr r1 \<and>
         add m t2 r1 [''repoA''] [''owner'' \<mapsto> PStr ''bob''] = Inr r2 \<and>
         filter (\<lambda>e. repo_id e = ''repoA'') (entries r2) =
           [\<lparr> repo_id = ''repoA'', message = PStr ''Maintenance mode is enabled'',
              owner = PStr ''bob'', started = started_default m \<rparr>]"
    by blast
  show ?thesis by (rule conjI) (rule a b)+
qed

theorem add_replaces_existing_witness:
  "add sample_module call_time sample_report [''repoA'', ''repoB'', ''repoA'']
       [''owner'' \<mapsto> PStr ''bob'', ''message'' \<mapsto> PStr ''testing''] =
     Inr \<lparr> last_updated = PStr ''2021-11-12T13:14:15Z'',
           last_updated_by = PStr ''bob'',
           entries = [\<lparr> repo_id = ''repoA'', message = PStr ''testing'',
                        owner = PStr ''bob'', started = PStr ''2020-01-02T03:04:05Z'' \<rparr>,
                      \<lparr> repo_id = ''repoB'', message = PStr ''testing'',
                        owner = PStr ''bob'', started = PStr ''2020-01-02T03:04:05Z'' \<rparr>] \<rparr>"
proof -
  let ?kw = "[''owner'' \<mapsto> PStr ''bob'', ''message'' \<mapsto> PStr ''testing'']"
  have o: "resolve_owner sample_module ?kw = PStr ''bob''"
    by (simp add: resolve_owner_def kwargs_get_def py_or_def)
  have g: "resolve_message ?kw = PStr ''testing''"
    by (simp add: resolve_message_def kwargs_get_def py_or_def)
  show ?thesis
    using add_replaces_existing [where m = sample_module and now = call_time
        and r = sample_report and repo_ids = "[''repoA'', ''repoB'', ''repoA'']" and kw = ?kw
        and ?t1.0 = call_time and ?t2.0 = call_time]
    by (simp add: add_eq o g sample_module_fields iso_call_time to_add_Cons to_add_Nil
          MaintenanceEntry_init_def sample_report_def sample_entry_def)
qed

section \<open>The order of the entries after add\<close>

text \<open>
  C9, as stated, says that the entries of \<open>self\<close> come first, in their order, and
  the new entries after them. The loop of lines 161-166 appends what it keeps while
  it walks the combined list backwards and the result is not reversed again: adding
  \<open>repoB\<close> to a report that holds \<open>repoA\<close> gives \<open>repoB\<close>, then \<open>repoA\<close>.
\<close>

theorem add_appends_counterexample:
  "unique_ids sample_report \<and>
   ''repoB'' \<notin> repo_id ` set (entries sample_report) \<and>
   add sample_module call_time sample_report [''repoB''] Map.empty =
     Inr \<lparr> last_updated = PStr ''2021-11-12T13:14:15Z'',
           last_updated_by = PStr ''alice@box'',
           entries = [\<lparr> repo_id = ''repoB'', message = PStr ''Maintenance mode is enabled'',
                        owner = PStr ''alice@box'', started = PStr ''2020-01-02T03:04:05Z'' \<rparr>,
                      sample_entry ''repoA''] \<rparr> \<and>
   [\<lparr> repo_id = ''repoB'', message = PStr ''Maintenance mode is enabled'',
      owner = PStr ''alice@box'', started = PStr ''2020-01-02T03:04:05Z'' \<rparr>,
    sample_entry ''repoA''] \<noteq>
   entries sample_report @
     to_add sample_module (PStr ''Maintenance mode is enabled'') (PStr ''alice@box'') [''repoB'']"
  by (simp add: add_sample_B sample_unique)
    (simp add: sample_report_def sample_entry_def to_add_one)

text \<open>
  C9, amended. When no id of \<open>repo_ids\<close> is present in \<open>self\<close> (whose ids are
  distinct), the entries of \<open>add\<close>'s result are the new entries in reverse order of
  \<open>repo_ids\<close> (an id that is repeated counted at its last occurrence), followed by
  the entries of \<open>self\<close> in reverse order.
\<close>

theorem add_order_fresh_ids:
  assumes "unique_ids r" and "set repo_ids \<inter> repo_id ` set (entries r) = {}"
  shows "\<exists>r'. add m now r repo_ids kw = Inr r' \<and>
           entries r' =
             rev (to_add m (resolve_message kw) (resolve_owner m kw) (remdups repo_ids)) @
             rev (entries r) \<and>
           (distinct repo_ids \<longrightarrow>
              entries r' =
                rev (to_add m (resolve_message kw) (resolve_owner m kw) repo_ids) @
                rev (entries r))"
proof -
  let ?new = "to_add m (resolve_message kw) (resolve_owner m kw) repo_ids"
  have keep: "filter (\<lambda>e. repo_id e \<notin> repo_id ` set ?new) (entries r) = entries r"
    using assms(2) unfolding to_add_id_set by (intro filter_True) auto
  have old: "keep_last (entries r) = entries r"
    using assms(1) by (simp add: unique_ids_def keep_last_id)
  have "keep_last (entries r @ ?new) =
          entries r @ to_add m (resolve_message kw) (resolve_owner m kw) (remdups repo_ids)"
    by (simp only: keep_last_append old keep keep_last_to_add)
  then show ?thesis
    by (simp add: add_eq distinct_remdups_id)
qed

theorem add_order_fresh_ids_witness:
  "unique_ids sample_report \<and>
   set [''repoB'', ''repoC''] \<inter> repo_id ` set (entries sample_report) = {} \<and>
   add sample_module call_time sample_report [''repoB'', ''repoC''] Map.empty =
     Inr \<lparr> last_updated = PStr ''2021-11-12T13:14:15Z'',
           last_updated_by = PStr ''alice@box'',
           entries = [\<lparr> repo_id = ''repoC'', message = PStr ''Maintenance mode is enabled'',
                        owner = PStr ''alice@box'', started = PStr ''2020-01-02T03:04:05Z'' \<rparr>,
                      \<lparr> repo_id = ''repoB'', message = PStr ''Maintenance mode is enabled'',
                        owner = PStr ''alice@box'', started = PStr ''2020-01-02T03:04:05Z'' \<rparr>,
                      sample_entry ''repoA''] \<rparr>"
proof -
  have d: "set [''repoB'', ''repoC''] \<inter> repo_id ` set (entries sample_report) = {}"
    by (simp add: sample_report_def sample_entry_def)
  show ?thesis
    using d add_order_fresh_ids [OF sample_unique d, where m = sample_module and now = call_time
        and kw = Map.empty]
    by (simp add: add_eq unique_ids_def resolve_empty sample_module_fields iso_call_time
          to_add_Cons to_add_Nil MaintenanceEntry_init_def sample_report_def sample_entry_def)
qed

section \<open>The default of started\<close>

text \<open>
  C2. The \<open>started\<close> of every entry \<open>add\<close> makes is the default of the attribute,
  which was computed once, when the class body of \<open>MaintenanceEntry\<close> ran: it is the
  time the module was loaded, whatever the time of the call.
\<close>

theorem add_started_is_class_definition_time:
  "\<exists>r'. add (load_module environ t_entry t_report) now r repo_ids kw = Inr r' \<and>
     (\<forall>e \<in> set (entries r'). repo_id e \<in> set repo_ids \<longrightarrow>
        started e = PStr (iso_time_now t_entry))"
proof -
  obtain r' where r': "add (load_module environ t_entry t_report) now r repo_ids kw = Inr r'"
    by (simp add: add_eq)
  have "started e = PStr (iso_time_now t_entry)"
    if "e \<in> set (entries r')" and "repo_id e \<in> set repo_ids" for e
  proof -
    have "started e = started (MaintenanceEntry_init (load_module environ t_entry t_report) (repo_id e)
             (Some (resolve_message kw))
             (Some (resolve_owner (load_module environ t_entry t_report) kw)) None)"
      using added_entries [OF r' that] by simp
    then show ?thesis by (simp add: MaintenanceEntry_init_def load_module_def)
  qed
  with r' show ?thesis by blast
qed

theorem add_started_is_class_definition_time_witness:
  "add (load_module [''USER'' \<mapsto> ''alice'', ''HOSTNAME'' \<mapsto> ''box''] import_time import_time)
       call_time sample_report [''repoD''] Map.empty =
     Inr \<lparr> last_updated = PStr ''2021-11-12T13:14:15Z'',
           last_updated_by = PStr ''alice@box'',
           entries = [\<lparr> repo_id = ''repoD'', message = PStr ''Maintenance mode is enabled'',
                        owner = PStr ''alice@box'', started = PStr ''2020-01-02T03:04:05Z'' \<rparr>,
                      sample_entry ''repoA''] \<rparr> \<and>
   iso_time_now import_time = ''2020-01-02T03:04:05Z'' \<and>
   iso_time_now call_time = ''2021-11-12T13:14:15Z''"
  using add_started_is_class_definition_time [where environ = "[''USER'' \<mapsto> ''alice'', ''HOSTNAME'' \<mapsto> ''box'']"
      and t_entry = import_time and t_report = import_time and now = call_time
      and r = sample_report and repo_ids = "[''repoD'']" and kw = Map.empty]
  by (simp add: sample_module_def [symmetric] add_eq resolve_empty sample_module_fields
        iso_call_time iso_import_time to_add_one sample_report_def sample_entry_def)

section \<open>Defaults of message and owner\<close>

text \<open>
  C8, as stated, gives the default owner as \<open>USER@HOSTNAME\<close> whenever both
  environment variables are set. The test is \<open>all([USER, HOSTNAME])\<close>, on
  truthiness: with \<open>HOSTNAME\<close> set to the empty string the default owner is the
  fallback literal, not \<open>alice@\<close>.
\<close>

theorem default_owner_counterexample:
  "[''USER'' \<mapsto> ''alice'', ''HOSTNAME'' \<mapsto> ''''] ''USER'' = Some ''alice'' \<and>
   [''USER'' \<mapsto> ''alice'', ''HOSTNAME'' \<mapsto> ''''] ''HOSTNAME'' = Some '''' \<and>
   OWNER (load_module [''USER'' \<mapsto> ''alice'', ''HOSTNAME'' \<mapsto> ''''] import_time import_time) =
     ''pubtools.pulplib'' \<and>
   OWNER (load_module [''USER'' \<mapsto> ''alice'', ''HOSTNAME'' \<mapsto> ''''] import_time import_time) \<noteq>
     ''alice'' @ ''@'' @ ''''"
  by (simp add: OWNER_cases load_module_def)

text \<open>
  C8, amended. When no message is passed to \<open>add\<close>, the message of every entry it
  makes is \<open>Maintenance mode is enabled\<close>; when no owner is passed, the owner of
  every entry it makes and the \<open>last_updated_by\<close> of the result are the default
  owner. The default owner is \<open>USER@HOSTNAME\<close> when both environment variables are
  set and not empty, and \<open>pubtools.pulplib\<close> otherwise.
\<close>

theorem add_default_resolution:
  "\<exists>r'. add m now r repo_ids kw = Inr r' \<and>
     (kw ''message'' = None \<longrightarrow>
        (\<forall>e \<in> set (entries r'). repo_id e \<in> set repo_ids \<longrightarrow>
           message e = PStr ''Maintenance mode is enabled'')) \<and>
     (kw ''owner'' = None \<longrightarrow>
        last_updated_by r' = PStr (OWNER m) \<and>
        (\<forall>e \<in> set (entries r'). repo_id e \<in> set repo_ids \<longrightarrow> owner e = PStr (OWNER m))) \<and>
     OWNER (load_module environ t_entry t_report) =
       (case (environ ''USER'', environ ''HOSTNAME'') of
          (Some u, Some h) \<Rightarrow>
            if u \<noteq> [] \<and> h \<noteq> [] then u @ ''@'' @ h else ''pubtools.pulplib''
        | _ \<Rightarrow> ''pubtools.pulplib'')"
proof -
  obtain r' where r': "add m now r repo_ids kw = Inr r'"
    by (simp add: add_eq)
  note f = added_entry_message_owner [OF r']
  have lub: "last_updated_by r' = resolve_owner m kw"
    using r' by (auto simp: add_eq)
  have msg: "kw ''message'' = None \<Longrightarrow> resolve_message kw = PStr ''Maintenance mode is enabled''"
    by (simp add: resolve_message_def kwargs_get_def py_or_def)
  have own: "kw ''owner'' = None \<Longrightarrow> resolve_owner m kw = PStr (OWNER m)"
    by (simp add: resolve_owner_def kwargs_get_def py_or_def)
  have ow: "OWNER (load_module environ t_entry t_report) =
       (case (environ ''USER'', environ ''HOSTNAME'') of
          (Some u, Some h) \<Rightarrow>
            if u \<noteq> [] \<and> h \<noteq> [] then u @ ''@'' @ h else ''pubtools.pulplib''
        | _ \<Rightarrow> ''pubtools.pulplib'')"
    by (simp add: OWNER_cases load_module_def split: option.splits)
  have c1: "kw ''message'' = None \<longrightarrow>
        (\<forall>e \<in> set (entries r'). repo_id e \<in> set repo_ids \<longrightarrow>
           message e = PStr ''Maintenance mode is enabled'')"
    by (simp add: f msg)
  have c2: "kw ''owner'' = None \<longrightarrow>
        last_updated_by r' = PStr (OWNER m) \<and>
        (\<forall>e \<in> set (entries r'). repo_id e \<in> set repo_ids \<longrightarrow> owner e = PStr (OWNER m))"
    by (simp add: f lub own)
  show ?thesis
    by (intro exI [of _ r'] conjI) (rule r' c1 c2 ow)+
qed

theorem add_default_resolution_witness:
  "add sample_module call_time sample_report [''repoE''] Map.empty =
     Inr \<lparr> last_updated = PStr ''2021-11-12T13:14:15Z'',
           last_updated_by = PStr ''alice@box'',
           entries = [\<lparr> repo_id = ''repoE'', message = PStr ''Maintenance mode is enabled'',
                        owner = PStr ''alice@box'', started = PStr ''2020-01-02T03:04:05Z'' \<rparr>,
                      sample_entry ''repoA''] \<rparr> \<and>
   OWNER (load_module [''USER'' \<mapsto> ''alice'', ''HOSTNAME'' \<mapsto> ''box''] import_time import_time) =
     ''alice@box'' \<and>
   OWNER (load_module [''USER'' \<mapsto> ''alice''] import_time import_time) = ''pubtools.pulplib''"
proof -
  have o1: "OWNER (load_module [''USER'' \<mapsto> ''alice'', ''HOSTNAME'' \<mapsto> ''box''] import_time import_time) =
     ''alice@box''"
    by (simp add: OWNER_cases load_module_def)
  have o2: "OWNER (load_module [''USER'' \<mapsto> ''alice''] import_time import_time) = ''pubtools.pulplib''"
    by (simp add: OWNER_cases load_module_def)
  show ?thesis
    using add_default_resolution [where m = sample_module and now = call_time and r = sample_report
        and repo_ids = "[''repoE'']" and kw = Map.empty
        and environ = "[''USER'' \<mapsto> ''alice'', ''HOSTNAME'' \<mapsto> ''box'']"
        and t_entry = import_time and t_report = import_time]
    by (simp add: add_eq resolve_empty sample_module_fields iso_call_time to_add_one
          sample_report_def sample_entry_def o1 o2)
qed

section \<open>Falsy keyword arguments\<close>

text \<open>
  C10. A falsy value passed as \<open>message\<close> or \<open>owner\<close> (\<open>None\<close> and the empty
  string are falsy) gives the same result as omitting the keyword, in \<open>add\<close> and,
  for \<open>owner\<close>, in \<open>remove\<close>. Whatever the keywords, the message and the owner of
  every entry \<open>add\<close> makes are truthy, so never the empty string.
\<close>

theorem falsy_keyword_is_default:
  "(\<not> truthy v \<longrightarrow>
      add m now r repo_ids (kw(''message'' \<mapsto> v)) = add m now r repo_ids (kw(''message'' := None)) \<and>
      add m now r repo_ids (kw(''owner'' \<mapsto> v)) = add m now r repo_ids (kw(''owner'' := None)) \<and>
      remove m r repo_ids (kw(''owner'' \<mapsto> v)) = remove m r repo_ids (kw(''owner'' := None)))
   \<and> \<not> truthy PNone \<and> \<not> truthy (PStr '''')
   \<and> (\<exists>r'. add m now r repo_ids kw = Inr r' \<and>
        (\<forall>e \<in> set (entries r'). repo_id e \<in> set repo_ids \<longrightarrow>
           truthy (message e) \<and> truthy (owner e) \<and>
           message e \<noteq> PStr '''' \<and> owner e \<noteq> PStr ''''))"
proof -
  have rm: "\<not> truthy v \<Longrightarrow>
      resolve_message (kw(''message'' \<mapsto> v)) = resolve_message (kw(''message'' := None))"
    by (simp add: resolve_message_def kwargs_get_def py_or_def)
  have rm': "resolve_message (kw(''owner'' := x)) = resolve_message kw" for x
    by (simp add: resolve_message_def kwargs_get_def)
  have ro: "\<not> truthy v \<Longrightarrow>
      resolve_owner m (kw(''owner'' \<mapsto> v)) = resolve_owner m (kw(''owner'' := None))"
    by (simp add: resolve_owner_def kwargs_get_def py_or_def)
  have ro': "resolve_owner m (kw(''message'' := x)) = resolve_owner m kw" for x
    by (simp add: resolve_owner_def kwargs_get_def)
  have a: "\<not> truthy v \<longrightarrow>
      add m now r repo_ids (kw(''message'' \<mapsto> v)) = add m now r repo_ids (kw(''message'' := None)) \<and>
      add m now r repo_ids (kw(''owner'' \<mapsto> v)) = add m now r repo_ids (kw(''owner'' := None)) \<and>
      remove m r repo_ids (kw(''owner'' \<mapsto> v)) = remove m r repo_ids (kw(''owner'' := None))"
    by (simp only: add_def remove_def rm' ro') (simp add: rm ro)
  obtain r' where r': "add m now r repo_ids kw = Inr r'"
    by (simp add: add_eq)
  have f: "truthy (message e) \<and> truthy (owner e) \<and> message e \<noteq> PStr '''' \<and> owner e \<noteq> PStr ''''"
    if "e \<in> set (entries r')" and "repo_id e \<in> set repo_ids" for e
  proof -
    have "message e = resolve_message kw \<and> owner e = resolve_owner m kw"
      using added_entry_message_owner [OF r' that] .
    then show ?thesis
      using resolve_message_truthy [of kw] resolve_owner_truthy [of m kw] by auto
  qed
  have b: "\<exists>r'. add m now r repo_ids kw = Inr r' \<and>
        (\<forall>e \<in> set (entries r'). repo_id e \<in> set repo_ids \<longrightarrow>
           truthy (message e) \<and> truthy (owner e) \<and>
           message e \<noteq> PStr '''' \<and> owner e \<noteq> PStr '''')"
    using r' f by blast
  have c: "\<not> truthy PNone" by simp
  have d: "\<not> truthy (PStr '''')" by simp
  show ?thesis
    by (intro conjI) (rule a c d b)+
qed

theorem falsy_keyword_is_default_witness:
  "\<not> truthy (PStr '''') \<and>
   add sample_module call_time sample_report [''repoF'']
       [''message'' \<mapsto> PStr '''', ''owner'' \<mapsto> PNone] =
     Inr \<lparr> last_updated = PStr ''2021-11-12T13:14:15Z'',
           last_updated_by = PStr ''alice@box'',
           entries = [\<lparr> repo_id = ''repoF'', message = PStr ''Maintenance mode is enabled'',
                        owner = PStr ''alice@box'', started = PStr ''2020-01-02T03:04:05Z'' \<rparr>,
                      sample_entry ''repoA''] \<rparr> \<and>
   add sample_module call_time sample_report [''repoF''] [''message'' \<mapsto> PStr ''''] =
   add sample_module call_time sample_report [''repoF''] Map.empty"
proof -
  let ?kw = "[''message'' \<mapsto> PStr '''', ''owner'' \<mapsto> PNone]"
  have o: "resolve_owner sample_module ?kw = PStr ''alice@box''"
    by (simp add: resolve_owner_def kwargs_get_def py_or_def sample_module_fields)
  have g: "resolve_message ?kw = PStr ''Maintenance mode is enabled''"
    by (simp add: resolve_message_def kwargs_get_def py_or_def)
  have g': "resolve_message [''message'' \<mapsto> PStr ''''] = PStr ''Maintenance mode is enabled''"
    by (simp add: resolve_message_def kwargs_get_def py_or_def)
  have o': "resolve_owner sample_module [''message'' \<mapsto> PStr ''''] = PStr ''alice@box''"
    by (simp add: resolve_owner_def kwargs_get_def py_or_def sample_module_fields)
  show ?thesis
    using falsy_keyword_is_default [where v = "PStr ''''" and m = sample_module and now = call_time
        and r = sample_report and repo_ids = "[''repoF'']" and kw = Map.empty]
    by (simp add: add_eq o g o' g' resolve_empty sample_module_fields iso_call_time to_add_one
          sample_report_def sample_entry_def)
qed

section \<open>Import from raw data\<close>














section \<open>Export\<close>











end
